theory Spec2Isabelle
  imports Main
begin

section \<open>Values, exceptions and the environment\<close>

text \<open>
  The program (\<^verbatim>\<open>src/app.py\<close>) enriches a column of entity names: for each entity it
  renders a search query from a template, fetches a results page, extracts titles and
  snippets, asks a language model for a JSON analysis, and appends one dictionary per row.

  Python values that end up in the result dictionaries are values of \<open>pyval\<close>. A
  dictionary is an association list in insertion order with distinct keys; a float is kept
  as the text of its literal, since it is never inspected. The entity cells of the chosen
  column are strings.
\<close>

datatype pyval =
    PNone
  | PBool bool
  | PInt int
  | PFloat string
  | PStr string
  | PList "pyval list"
  | PDict "(string \<times> pyval) list"

type_synonym dict = "(string \<times> pyval) list"

text \<open>
  An exception caught by one of the program's \<^verbatim>\<open>except Exception as e\<close> handlers is used
  through \<^verbatim>\<open>str(e)\<close> only, so it is represented by that message.
\<close>

datatype exn = Exn string

fun str_exn :: "exn \<Rightarrow> string" where
  "str_exn (Exn m) = m"

text \<open>
  An exception that no handler of the modelled functions catches leaves the function; it is
  represented by its class.
\<close>

datatype py_error =
    ValueError
  | KeyError string
  | IndexError
  | AttributeError
  | OtherError string

text \<open>
  A result container of the parsed page (an element matching \<^verbatim>\<open>.result__body\<close>), reduced to
  what the program reads from it: the text of its \<^verbatim>\<open>.result__title\<close> and of its
  \<^verbatim>\<open>.result__snippet\<close> descendant, \<open>None\<close> where \<^verbatim>\<open>select_one\<close> finds no such element.
\<close>

record container =
  title :: "string option"
  snippet :: "string option"

record chat_request =
  model :: string
  messages :: "(string \<times> string) list"
  temperature :: int
  max_tokens :: int

text \<open>
  Everything outside the program is a field of the environment. The calls made while the
  loop of \<^verbatim>\<open>process_data\<close> handles its \<open>idx\<close>-th row take \<open>idx\<close> as an argument, so the
  network, the completion service and the clock may answer differently from row to row.
  \<^item> \<open>format_ext\<close>: \<^verbatim>\<open>str.format\<close> on the templates that \<open>format_text\<close> below leaves open
    (conversions, format specifications, attribute and index lookups, positional fields);
  \<^item> \<open>http_get\<close>: \<^verbatim>\<open>requests.get(url, headers=...)\<close> followed by \<^verbatim>\<open>.text\<close>;
  \<^item> \<open>soup_select\<close>: \<^verbatim>\<open>BeautifulSoup(text, 'html.parser').select('.result__body')\<close>;
  \<^item> \<open>chat_create\<close>: \<^verbatim>\<open>client.chat.completions.create(...)\<close>, returning the message
    content of each choice (\<open>None\<close> for a message without content);
  \<^item> \<open>json_loads\<close>: \<^verbatim>\<open>json.loads\<close>;
  \<^item> \<open>strftime\<close>: \<^verbatim>\<open>time.strftime("%Y-%m-%d %H:%M:%S")\<close>.
\<close>

record env =
  format_ext :: "string \<Rightarrow> string \<Rightarrow> py_error + string"
  http_get :: "nat \<Rightarrow> string \<Rightarrow> (string \<times> string) list \<Rightarrow> exn + string"
  soup_select :: "string \<Rightarrow> exn + container list"
  chat_create :: "nat \<Rightarrow> chat_request \<Rightarrow> exn + string option list"
  json_loads :: "string \<Rightarrow> exn + pyval"
  strftime :: "nat \<Rightarrow> string"

text \<open>Sequencing of statements that may raise, and \<^verbatim>\<open>try: ... except Exception as e: ...\<close>.\<close>

definition and_then :: "'e + 'a \<Rightarrow> ('a \<Rightarrow> 'e + 'b) \<Rightarrow> 'e + 'b" where
  "and_then m f = (case m of Inl e \<Rightarrow> Inl e | Inr x \<Rightarrow> f x)"

definition try_except :: "exn + 'a \<Rightarrow> (exn \<Rightarrow> exn + 'a) \<Rightarrow> exn + 'a" where
  "try_except body handler = (case body of Inl e \<Rightarrow> handler e | Inr x \<Rightarrow> Inr x)"

section \<open>Query rendering: \<^verbatim>\<open>template.format(entity=entity)\<close>\<close>

text \<open>
  \<^verbatim>\<open>str.format\<close> with the single keyword argument \<open>entity\<close>, scanned left to right as the
  interpreter does: \<^verbatim>\<open>{{\<close> and \<^verbatim>\<open>}}\<close> are literal braces, a lone \<^verbatim>\<open>}\<close> and an unclosed
  \<^verbatim>\<open>{\<close> raise ValueError, a field \<^verbatim>\<open>{entity}\<close> is replaced by the entity, an empty field
  name is positional field 0 of an empty argument tuple (IndexError), and another plain
  name is a missing keyword (KeyError). The first failure wins. The result is \<open>None\<close> when
  the scan meets a field it does not interpret: one with a conversion (\<^verbatim>\<open>!\<close>), a format
  specification (\<^verbatim>\<open>:\<close>), an attribute or index lookup (\<^verbatim>\<open>.\<close>, \<^verbatim>\<open>[\<close>), a nested brace,
  a name of digits only, or a byte outside ASCII.
\<close>

definition plain_char :: "char \<Rightarrow> bool" where
  "plain_char c = (c \<notin> set ''{!:.['' \<and> (of_char c :: nat) < 128)"

definition digit_char :: "char \<Rightarrow> bool" where
  "digit_char c = (c \<in> set ''0123456789'')"

definition emit :: "string \<Rightarrow> (py_error + string) option \<Rightarrow> (py_error + string) option" where
  "emit s rest = (case rest of Some (Inr out) \<Rightarrow> Some (Inr (s @ out)) | other \<Rightarrow> other)"

definition lookup_field ::
  "string \<Rightarrow> string \<Rightarrow> (py_error + string) option \<Rightarrow> (py_error + string) option" where
  "lookup_field entity name rest =
     (if name = [] then Some (Inl IndexError)
      else if list_all digit_char name then None
      else if name = ''entity'' then emit entity rest
      else Some (Inl (KeyError name)))"

fun format_text :: "string \<Rightarrow> string \<Rightarrow> (py_error + string) option"
  and format_field :: "string \<Rightarrow> string \<Rightarrow> string \<Rightarrow> (py_error + string) option" where
  "format_text entity [] = Some (Inr [])"
| "format_text entity (c # cs) =
     (if c = CHR ''{'' then
        (case cs of
           [] \<Rightarrow> Some (Inl ValueError)
         | d # ds \<Rightarrow> if d = CHR ''{'' then emit ''{'' (format_text entity ds)
                     else format_field entity [] cs)
      else if c = CHR ''}'' then
        (case cs of
           [] \<Rightarrow> Some (Inl ValueError)
         | d # ds \<Rightarrow> if d = CHR ''}'' then emit ''}'' (format_text entity ds)
                     else Some (Inl ValueError))
      else emit [c] (format_text entity cs))"
| "format_field entity name [] = Some (Inl ValueError)"
| "format_field entity name (c # cs) =
     (if c = CHR ''}'' then
        lookup_field entity name (format_text entity cs)
      else if plain_char c then format_field entity (name @ [c]) cs
      else None)"

definition render :: "env \<Rightarrow> string \<Rightarrow> string \<Rightarrow> py_error + string" where
  "render w template entity =
     (case format_text entity template of
        Some r \<Rightarrow> r
      | None \<Rightarrow> format_ext w template entity)"

section \<open>Web search and result extraction: \<^verbatim>\<open>search_web\<close>\<close>

definition headers :: "(string \<times> string) list" where
  "headers =
     [(''User-Agent'',
       ''Mozilla/5.0 (Windows NT 10.0; Win64; x64) AppleWebKit/537.36 (KHTML, like Gecko) Chrome/91.0.4472.124 Safari/537.36'')]"

text \<open>The local \<^verbatim>\<open>url\<close>: the string handed to \<^verbatim>\<open>requests.get\<close>.\<close>

definition search_url :: "string \<Rightarrow> string" where
  "search_url query = ''https://html.duckduckgo.com/html/?q='' @ query"

text \<open>The slice \<^verbatim>\<open>xs[:n]\<close>: a negative \<open>n\<close> counts from the end.\<close>

definition slice_to :: "int \<Rightarrow> 'a list \<Rightarrow> 'a list" where
  "slice_to n xs =
     (if 0 \<le> n then take (nat n) xs else take (length xs - nat (- n)) xs)"

text \<open>
  The loop over the sliced containers: a container with both a title and a snippet
  appends one formatted hit, any other container is skipped.
\<close>

fun collect_results :: "container list \<Rightarrow> string list" where
  "collect_results [] = []"
| "collect_results (r # rs) =
     (case (title r, snippet r) of
        (Some t, Some s) \<Rightarrow>
          (''Title: '' @ t @ ''\<newline>Snippet: '' @ s @ ''\<newline>'') # collect_results rs
      | _ \<Rightarrow> collect_results rs)"

text \<open>\<^verbatim>\<open>'\n'.join(results)\<close>\<close>

fun join_lines :: "string list \<Rightarrow> string" where
  "join_lines [] = []"
| "join_lines [x] = x"
| "join_lines (x # y # ys) = x @ ''\<newline>'' @ join_lines (y # ys)"

text \<open>The list \<^verbatim>\<open>results\<close> of \<^verbatim>\<open>search_web\<close> for a page text, before it is joined.\<close>

definition extract_results :: "env \<Rightarrow> string \<Rightarrow> int \<Rightarrow> exn + string list" where
  "extract_results w text num_results =
     and_then (soup_select w text)
       (\<lambda>bodies. Inr (collect_results (slice_to num_results bodies)))"

definition search_web :: "env \<Rightarrow> nat \<Rightarrow> string \<Rightarrow> int \<Rightarrow> exn + string" where
  "search_web w idx query num_results =
     try_except
       (and_then (http_get w idx (search_url query) headers)
          (\<lambda>text. and_then (extract_results w text num_results)
             (\<lambda>results. Inr (join_lines results))))
       (\<lambda>e. Inr (''Search error: '' @ str_exn e))"

text \<open>
  The same function with its effect on the network made explicit. \<open>sent\<close> is the list of
  requests handed to \<^verbatim>\<open>requests.get\<close> so far; the call on line 28 appends its request,
  whatever the answer is, and the rest of the body issues none.
\<close>

record http_request =
  req_method :: string
  req_url :: string
  req_headers :: "(string \<times> string) list"

definition requests_get ::
  "env \<Rightarrow> nat \<Rightarrow> string \<Rightarrow> (string \<times> string) list \<Rightarrow> http_request list
     \<Rightarrow> (exn + string) \<times> http_request list" where
  "requests_get w idx address hs sent =
     (http_get w idx address hs,
      sent @ [\<lparr> req_method = ''GET'', req_url = address, req_headers = hs \<rparr>])"

definition search_web_io ::
  "env \<Rightarrow> nat \<Rightarrow> string \<Rightarrow> int \<Rightarrow> http_request list \<Rightarrow> (exn + string) \<times> http_request list" where
  "search_web_io w idx query num_results sent =
     (case requests_get w idx (search_url query) headers sent of
        (response, sent') \<Rightarrow>
          (try_except
             (and_then response
                (\<lambda>text. and_then (extract_results w text num_results)
                   (\<lambda>results. Inr (join_lines results))))
             (\<lambda>e. Inr (''Search error: '' @ str_exn e)),
           sent'))"

section \<open>Structured extraction: \<^verbatim>\<open>extract_info_with_llm\<close>\<close>

definition prompt :: "string \<Rightarrow> string \<Rightarrow> string" where
  \<open>prompt query search_results =
     ''\<newline>'' @
     ''        ### Context\<newline>'' @
     ''        Query: '' @ query @ ''\<newline>'' @
     ''        Search Results: '' @ search_results @ ''\<newline>'' @
     ''\<newline>'' @
     ''        ### Task\<newline>'' @
     ''        Analyze the search results and extract relevant information that answers the query.\<newline>'' @
     ''        Provide a response in JSON format with the following structure:\<newline>'' @
     ''        {\<newline>'' @
     ''            "extracted_info": "main findings or relevant information",\<newline>'' @
     ''            "key_points": ["list", "of", "important", "points"],\<newline>'' @
     ''            "source_quality": "assessment of source reliability (high/medium/low)",\<newline>'' @
     ''            "confidence": "confidence in findings (high/medium/low)",\<newline>'' @
     ''            "additional_notes": "any caveats or important context"\<newline>'' @
     ''        }\<newline>'' @
     ''\<newline>'' @
     ''        The JSON must be valid and properly formatted.\<newline>'' @
     ''        ''\<close>

definition completion_request :: "string \<Rightarrow> string \<Rightarrow> chat_request" where
  "completion_request query search_results =
     \<lparr> model = ''mixtral-8x7b-32768'',
       messages =
         [(''system'',
           ''You are a precise data extraction assistant. Always provide responses in valid JSON format.''),
          (''user'', prompt query search_results)],
       temperature = 0,
       max_tokens = 1000 \<rparr>"

text \<open>
  \<^verbatim>\<open>completion.choices[0].message.content\<close> handed to \<^verbatim>\<open>json.loads\<close>: an empty list of
  choices raises IndexError, a message without content raises TypeError in \<^verbatim>\<open>json.loads\<close>.
\<close>

definition first_content :: "string option list \<Rightarrow> exn + string" where
  "first_content choices =
     (case choices of
        [] \<Rightarrow> Inl (Exn ''list index out of range'')
      | None # _ \<Rightarrow>
          Inl (Exn ''the JSON object must be str, bytes or bytearray, not NoneType'')
      | Some content # _ \<Rightarrow> Inr content)"

text \<open>The dictionary built by the handler of \<^verbatim>\<open>extract_info_with_llm\<close>.\<close>

definition llm_failure :: "exn \<Rightarrow> pyval" where
  "llm_failure e =
     PDict
       [(''error'', PStr (''LLM processing error: '' @ str_exn e)),
        (''extracted_info'', PNone),
        (''key_points'', PList []),
        (''source_quality'', PStr ''error''),
        (''confidence'', PStr ''none''),
        (''additional_notes'', PStr ''Failed to process with LLM'')]"

definition extract_info_with_llm :: "env \<Rightarrow> nat \<Rightarrow> string \<Rightarrow> string \<Rightarrow> exn + pyval" where
  "extract_info_with_llm w idx query search_results =
     try_except
       (and_then (chat_create w idx (completion_request query search_results))
          (\<lambda>choices. and_then (first_content choices) (json_loads w)))
       (\<lambda>e. Inr (llm_failure e))"

section \<open>The orchestrator: \<^verbatim>\<open>process_data\<close>\<close>

text \<open>
  The table is given by the cells of the chosen column, in row order; the index labels are
  those of a table read by \<^verbatim>\<open>read_csv\<close>, \<open>0, 1, 2, ...\<close>, so the progress fractions lie in
  the range the progress bar accepts and the progress display has no effect on the result.
  \<open>row_body\<close> is the body of the \<^verbatim>\<open>try\<close>, \<open>process_row\<close> the \<^verbatim>\<open>try\<close> with its handler;
  the query is rendered before the \<^verbatim>\<open>try\<close> is entered.
\<close>

definition row_body :: "env \<Rightarrow> nat \<Rightarrow> string \<Rightarrow> string \<Rightarrow> exn + dict" where
  "row_body w idx entity search_query =
     and_then (search_web w idx search_query 3)
       (\<lambda>search_results.
          and_then (extract_info_with_llm w idx search_query search_results)
            (\<lambda>extracted_info.
               Inr [(''entity'', PStr entity),
                    (''search_query'', PStr search_query),
                    (''analysis'', extracted_info),
                    (''timestamp'', PStr (strftime w idx))]))"

definition process_row :: "env \<Rightarrow> nat \<Rightarrow> string \<Rightarrow> string \<Rightarrow> dict" where
  "process_row w idx entity search_query =
     (case row_body w idx entity search_query of
        Inr r \<Rightarrow> r
      | Inl e \<Rightarrow>
          [(''entity'', PStr entity),
           (''error'', PStr (str_exn e)),
           (''timestamp'', PStr (strftime w idx))])"

fun process_loop ::
  "env \<Rightarrow> string \<Rightarrow> nat \<Rightarrow> dict list \<Rightarrow> string list \<Rightarrow> py_error + dict list" where
  "process_loop w template idx results [] = Inr results"
| "process_loop w template idx results (entity # rows) =
     (case render w template entity of
        Inl err \<Rightarrow> Inl err
      | Inr search_query \<Rightarrow>
          process_loop w template (Suc idx)
            (results @ [process_row w idx entity search_query]) rows)"

definition process_data :: "env \<Rightarrow> string list \<Rightarrow> string \<Rightarrow> py_error + dict list" where
  "process_data w data template = process_loop w template 0 [] data"

section \<open>The summary view of \<^verbatim>\<open>display_results\<close>\<close>

text \<open>\<^verbatim>\<open>r[key]\<close> on a dictionary and \<^verbatim>\<open>v.get(key, default)\<close> on any value.\<close>

definition subscript :: "dict \<Rightarrow> string \<Rightarrow> py_error + pyval" where
  "subscript r k = (case map_of r k of None \<Rightarrow> Inl (KeyError k) | Some v \<Rightarrow> Inr v)"

fun get_default :: "pyval \<Rightarrow> string \<Rightarrow> pyval \<Rightarrow> py_error + pyval" where
  "get_default (PDict kvs) k d = Inr (case map_of kvs k of None \<Rightarrow> d | Some v \<Rightarrow> v)"
| "get_default _ k d = Inl AttributeError"

definition summary_row :: "dict \<Rightarrow> pyval \<Rightarrow> py_error + dict" where
  "summary_row r analysis =
     and_then (subscript r ''entity'') (\<lambda>entity.
     and_then (get_default analysis ''extracted_info'' (PStr ''N/A'')) (\<lambda>findings.
     and_then (get_default analysis ''confidence'' (PStr ''N/A'')) (\<lambda>confidence.
     and_then (get_default analysis ''source_quality'' (PStr ''N/A'')) (\<lambda>quality.
       Inr [(''Entity'', entity),
            (''Main Findings'', findings),
            (''Confidence'', confidence),
            (''Source Quality'', quality)]))))"

fun summary_data :: "dict list \<Rightarrow> py_error + dict list" where
  "summary_data [] = Inr []"
| "summary_data (r # rs) =
     (case map_of r ''analysis'' of
        None \<Rightarrow> summary_data rs
      | Some analysis \<Rightarrow>
          and_then (summary_row r analysis)
            (\<lambda>row. and_then (summary_data rs) (\<lambda>rows. Inr (row # rows))))"

section \<open>The specification's vocabulary\<close>

text \<open>
  The specification speaks of a query that is URL-escaped (percent-encoded) and of the two
  shapes of an extraction result. These definitions follow its words, to be compared with
  what the program computes.
\<close>

definition unreserved :: "char \<Rightarrow> bool" where
  "unreserved c =
     (c \<in> set ''ABCDEFGHIJKLMNOPQRSTUVWXYZabcdefghijklmnopqrstuvwxyz0123456789-_.~'')"

definition hex_digit :: "nat \<Rightarrow> char" where
  "hex_digit n = ''0123456789ABCDEF'' ! (n mod 16)"

definition spec_percent_encode :: "string \<Rightarrow> string" where
  "spec_percent_encode s =
     concat (map (\<lambda>c. if unreserved c then [c]
                       else [CHR ''%'', hex_digit (of_char c div 16), hex_digit (of_char c)]) s)"

fun is_str :: "pyval \<Rightarrow> bool" where
  "is_str (PStr _) = True"
| "is_str _ = False"

fun is_str_list :: "pyval \<Rightarrow> bool" where
  "is_str_list (PList xs) = list_all is_str xs"
| "is_str_list _ = False"

text \<open>
  All five schema fields present and populated as the data model types them, and no
  \<open>error\<close> field.
\<close>

fun spec_valid_fields :: "pyval \<Rightarrow> bool" where
  "spec_valid_fields (PDict kvs) =
     (map_of kvs ''error'' = None \<and>
      (case map_of kvs ''extracted_info'' of
         Some v \<Rightarrow> v = PNone \<or> is_str v | None \<Rightarrow> False) \<and>
      (case map_of kvs ''key_points'' of
         Some v \<Rightarrow> is_str_list v | None \<Rightarrow> False) \<and>
      (case map_of kvs ''source_quality'' of
         Some v \<Rightarrow> v \<in> set [PStr ''high'', PStr ''medium'', PStr ''low'', PStr ''error'']
       | None \<Rightarrow> False) \<and>
      (case map_of kvs ''confidence'' of
         Some v \<Rightarrow> v \<in> set [PStr ''high'', PStr ''medium'', PStr ''low'', PStr ''none'']
       | None \<Rightarrow> False) \<and>
      (case map_of kvs ''additional_notes'' of
         Some v \<Rightarrow> is_str v | None \<Rightarrow> False))"
| "spec_valid_fields _ = False"

text \<open>The error sentinel: \<open>error\<close> set and the four sentinel values.\<close>

fun spec_error_sentinel :: "pyval \<Rightarrow> bool" where
  "spec_error_sentinel (PDict kvs) =
     ((case map_of kvs ''error'' of Some v \<Rightarrow> is_str v | None \<Rightarrow> False) \<and>
      map_of kvs ''extracted_info'' = Some PNone \<and>
      map_of kvs ''key_points'' = Some (PList []) \<and>
      map_of kvs ''source_quality'' = Some (PStr ''error'') \<and>
      map_of kvs ''confidence'' = Some (PStr ''none''))"
| "spec_error_sentinel _ = False"

section \<open>A scripted environment\<close>

text \<open>
  A run over the rows Acme and Globex. While row 0 is handled the search answers with a
  page of two containers, the second without a snippet, and the model answers with a JSON
  object of one field. While row 1 is handled the connection times out and the model
  answers with text that is not JSON.
\<close>

definition acme_page :: string where
  "acme_page = ''<html>acme</html>''"

definition acme_answer :: string where
  \<open>acme_answer = ''{"extracted_info": "Acme grows"}''\<close>

definition scripted_env :: env where
  "scripted_env =
     \<lparr> format_ext = (\<lambda>template entity. Inl ValueError),
       http_get = (\<lambda>idx url hs.
          if idx = 0 then Inr acme_page else Inl (Exn ''Read timed out.'')),
       soup_select = (\<lambda>text.
          if text = acme_page
          then Inr [\<lparr> title = Some ''Acme Corp'', snippet = Some ''Acme makes anvils'' \<rparr>,
                    \<lparr> title = Some ''Acme'', snippet = None \<rparr>]
          else Inr []),
       chat_create = (\<lambda>idx request.
          if idx = 0 then Inr [Some acme_answer] else Inr [Some ''Sorry, no results.'']),
       json_loads = (\<lambda>s.
          if s = acme_answer then Inr (PDict [(''extracted_info'', PStr ''Acme grows'')])
          else Inl (Exn ''Expecting value: line 1 column 1 (char 0)'')),
       strftime = (\<lambda>idx. if idx = 0 then ''2024-05-01 10:00:00'' else ''2024-05-01 10:00:02'') \<rparr>"

text \<open>The same run with the search endpoint unreachable while every row is handled.\<close>

definition offline_env :: env where
  "offline_env = scripted_env \<lparr> http_get := (\<lambda>idx url hs. Inl (Exn ''Read timed out.'')) \<rparr>"

section \<open>The loop of \<^verbatim>\<open>process_data\<close> and the handlers of its two steps\<close>

lemma search_web_returns: "\<exists>s. search_web w idx q n = Inr s"
  by (simp add: search_web_def try_except_def split: sum.split)

lemma extract_info_returns: "\<exists>a. extract_info_with_llm w idx q s = Inr a"
  by (simp add: extract_info_with_llm_def try_except_def split: sum.split)

lemma row_body_returns:
  "\<exists>sr a. search_web w idx q 3 = Inr sr \<and> extract_info_with_llm w idx q sr = Inr a \<and>
     row_body w idx e q =
       Inr [(''entity'', PStr e), (''search_query'', PStr q), (''analysis'', a),
            (''timestamp'', PStr (strftime w idx))]"
proof -
  obtain sr where sr: "search_web w idx q 3 = Inr sr"
    using search_web_returns by blast
  obtain a where a: "extract_info_with_llm w idx q sr = Inr a"
    using extract_info_returns by blast
  show ?thesis
    using sr a by (simp add: row_body_def and_then_def)
qed

lemma process_row_shape:
  "\<exists>sr a. search_web w idx q 3 = Inr sr \<and> extract_info_with_llm w idx q sr = Inr a \<and>
     process_row w idx e q =
       [(''entity'', PStr e), (''search_query'', PStr q), (''analysis'', a),
        (''timestamp'', PStr (strftime w idx))]"
  using row_body_returns [of w idx q e] by (auto simp: process_row_def)

lemma process_loop_acc:
  "process_loop w t idx acc rows =
     (case process_loop w t idx [] rows of Inl err \<Rightarrow> Inl err | Inr rs \<Rightarrow> Inr (acc @ rs))"
proof (induction rows arbitrary: idx acc)
  case Nil
  show ?case by simp
next
  case (Cons e rows)
  show ?case
  proof (cases "render w t e")
    case (Inl err)
    then show ?thesis by simp
  next
    case (Inr q)
    let ?r = "process_row w idx e q"
    have a: "process_loop w t (Suc idx) (acc @ [?r]) rows =
        (case process_loop w t (Suc idx) [] rows of
           Inl err \<Rightarrow> Inl err
         | Inr rs \<Rightarrow> Inr ((acc @ [?r]) @ rs))"
      by (rule Cons.IH)
    have b: "process_loop w t (Suc idx) [?r] rows =
        (case process_loop w t (Suc idx) [] rows of
           Inl err \<Rightarrow> Inl err
         | Inr rs \<Rightarrow> Inr ([?r] @ rs))"
      by (rule Cons.IH)
    show ?thesis
      by (simp add: Inr a b split: sum.split)
  qed
qed

lemma process_loop_Cons:
  "process_loop w t idx [] (e # rows) =
     (case render w t e of
        Inl err \<Rightarrow> Inl err
      | Inr q \<Rightarrow>
          (case process_loop w t (Suc idx) [] rows of
             Inl err \<Rightarrow> Inl err
           | Inr rs \<Rightarrow> Inr (process_row w idx e q # rs)))"
proof (cases "render w t e")
  case (Inl err)
  then show ?thesis by simp
next
  case (Inr q)
  then show ?thesis
    using process_loop_acc [of w t "Suc idx" "[process_row w idx e q]" rows]
    by (simp split: sum.split)
qed

lemma process_loop_rows:
  "process_loop w t idx [] rows = Inr rs \<Longrightarrow>
   length rs = length rows \<and>
   (\<forall>k<length rows. \<exists>q. render w t (rows ! k) = Inr q \<and>
        rs ! k = process_row w (idx + k) (rows ! k) q)"
proof (induction rows arbitrary: idx rs)
  case Nil
  then show ?case by simp
next
  case (Cons e rows)
  from Cons.prems obtain q rs' where
    q: "render w t e = Inr q" and
    rs': "process_loop w t (Suc idx) [] rows = Inr rs'" and
    rs: "rs = process_row w idx e q # rs'"
    by (auto simp del: process_loop.simps simp add: process_loop_Cons split: sum.splits)
  from Cons.IH [OF rs'] have
    len: "length rs' = length rows" and
    nth: "\<And>k. k < length rows \<Longrightarrow> \<exists>q. render w t (rows ! k) = Inr q \<and>
            rs' ! k = process_row w (Suc idx + k) (rows ! k) q"
    by simp_all
  have "\<exists>q'. render w t ((e # rows) ! k) = Inr q' \<and>
          rs ! k = process_row w (idx + k) ((e # rows) ! k) q'"
    if "k < length (e # rows)" for k
  proof (cases k)
    case 0
    then show ?thesis using q rs by simp
  next
    case (Suc j)
    then have "j < length rows" using that by simp
    from nth [OF this] show ?thesis using Suc rs by simp
  qed
  then show ?case using len rs by simp
qed

lemma process_loop_total:
  "(\<And>e. e \<in> set rows \<Longrightarrow> \<exists>q. render w t e = Inr q) \<Longrightarrow>
   \<exists>rs. process_loop w t idx [] rows = Inr rs"
proof (induction rows arbitrary: idx)
  case Nil
  show ?case by simp
next
  case (Cons e rows)
  obtain q where q: "render w t e = Inr q"
    using Cons.prems [of e] by auto
  obtain rs where rs: "process_loop w t (Suc idx) [] rows = Inr rs"
    using Cons.IH [of "Suc idx"] Cons.prems by auto
  show ?case using q rs by (simp del: process_loop.simps add: process_loop_Cons)
qed

lemma process_loop_abort:
  "k < length rows \<Longrightarrow> render w t (rows ! k) = Inl err \<Longrightarrow>
   (\<And>j. j < k \<Longrightarrow> \<exists>q. render w t (rows ! j) = Inr q) \<Longrightarrow>
   process_loop w t idx [] rows = Inl err"
proof (induction rows arbitrary: idx k)
  case Nil
  then show ?case by simp
next
  case (Cons e rows)
  show ?case
  proof (cases k)
    case 0
    then show ?thesis using Cons.prems(2) by (simp del: process_loop.simps add: process_loop_Cons)
  next
    case (Suc j)
    obtain q where q: "render w t e = Inr q"
      using Cons.prems(3) [of 0] Suc by auto
    have "process_loop w t (Suc idx) [] rows = Inl err"
    proof (rule Cons.IH [of j])
      show "j < length rows" using Cons.prems(1) Suc by simp
      show "render w t (rows ! j) = Inl err" using Cons.prems(2) Suc by simp
      show "\<exists>q. render w t (rows ! i) = Inr q" if "i < j" for i
        using Cons.prems(3) [of "Suc i"] that Suc by simp
    qed
    then show ?thesis using q by (simp del: process_loop.simps add: process_loop_Cons)
  qed
qed


lemmas run_defs =
  process_data_def render_def emit_def lookup_field_def plain_char_def digit_char_def
  process_row_def row_body_def search_web_def extract_results_def
  extract_info_with_llm_def first_content_def llm_failure_def and_then_def try_except_def
  slice_to_def scripted_env_def acme_page_def acme_answer_def

text \<open>
  C1: whenever \<open>process_data\<close> returns a list, the list has one record per input row, and
  the \<open>i\<close>-th record is the one built for the \<open>i\<close>-th row (its entity and its rendered
  query) at loop index \<open>i\<close>; and it does return a list whenever the template renders for
  every row.
\<close>

theorem process_data_length_order:
  "(process_data w rows template = Inr rs \<longrightarrow>
      length rs = length rows \<and>
      (\<forall>i<length rows. \<exists>q. render w template (rows ! i) = Inr q \<and>
          rs ! i = process_row w i (rows ! i) q \<and>
          map_of (rs ! i) ''entity'' = Some (PStr (rows ! i)))) \<and>
   ((\<forall>e\<in>set rows. \<exists>q. render w template e = Inr q) \<longrightarrow>
      (\<exists>rs'. process_data w rows template = Inr rs'))"
proof (intro conjI impI)
  assume run: "process_data w rows template = Inr rs"
  then have loop: "process_loop w template 0 [] rows = Inr rs"
    by (simp add: process_data_def)
  from process_loop_rows [OF loop] show "length rs = length rows"
    by simp
  show "\<forall>i<length rows. \<exists>q. render w template (rows ! i) = Inr q \<and>
          rs ! i = process_row w i (rows ! i) q \<and>
          map_of (rs ! i) ''entity'' = Some (PStr (rows ! i))"
  proof (intro allI impI)
    fix i assume i: "i < length rows"
    with process_loop_rows [OF loop] obtain q where
      q: "render w template (rows ! i) = Inr q" and
      r: "rs ! i = process_row w i (rows ! i) q"
      by auto
    from process_row_shape [of w i q "rows ! i"] r
    have "map_of (rs ! i) ''entity'' = Some (PStr (rows ! i))"
      by auto
    with q r show "\<exists>q. render w template (rows ! i) = Inr q \<and>
          rs ! i = process_row w i (rows ! i) q \<and>
          map_of (rs ! i) ''entity'' = Some (PStr (rows ! i))"
      by blast
  qed
next
  assume "\<forall>e\<in>set rows. \<exists>q. render w template e = Inr q"
  then show "\<exists>rs'. process_data w rows template = Inr rs'"
    using process_loop_total [of rows w template 0] by (simp add: process_data_def)
qed

theorem process_data_length_order_witness:
  "\<exists>rs. process_data scripted_env [''Acme'', ''Globex''] ''News about {entity}'' = Inr rs \<and>
        length rs = 2 \<and>
        map_of (rs ! 0) ''entity'' = Some (PStr ''Acme'') \<and>
        map_of (rs ! 1) ''entity'' = Some (PStr ''Globex'')"
proof -
  let ?rows = "[''Acme'', ''Globex'']"
  let ?t = "''News about {entity}''"
  have renders: "\<forall>e\<in>set ?rows. \<exists>q. render scripted_env ?t e = Inr q"
    by (simp add: render_def emit_def lookup_field_def plain_char_def digit_char_def)
  with process_data_length_order [of scripted_env ?rows ?t]
  obtain rs where rs: "process_data scripted_env ?rows ?t = Inr rs"
    by blast
  with process_data_length_order [of scripted_env ?rows ?t rs]
  have len: "length rs = length ?rows" and
    nth: "\<forall>i<length ?rows. map_of (rs ! i) ''entity'' = Some (PStr (?rows ! i))"
    by blast+
  from nth have "map_of (rs ! 0) ''entity'' = Some (PStr ''Acme'')" and
    "map_of (rs ! 1) ''entity'' = Some (PStr ''Globex'')"
    by simp_all
  with rs len show ?thesis by simp
qed

text \<open>
  C10: \<open>search_web\<close> and \<open>extract_info_with_llm\<close> return a value on every input, so the body
  of the per-row \<^verbatim>\<open>try\<close> returns a record and the handler's record (with \<open>error\<close> and
  without \<open>analysis\<close>) is never appended: every record of a returned list has exactly the
  keys entity, search_query, analysis and timestamp.
\<close>

theorem row_handler_unreachable:
  "(\<exists>out. search_web w idx q n = Inr out) \<and>
   (\<exists>a. extract_info_with_llm w idx q s = Inr a) \<and>
   (\<exists>r. row_body w idx e q = Inr r) \<and>
   (process_data w rows template = Inr rs \<longrightarrow>
      (\<forall>r\<in>set rs. map fst r = [''entity'', ''search_query'', ''analysis'', ''timestamp'']))"
proof (intro conjI impI ballI)
  show "\<exists>out. search_web w idx q n = Inr out" by (rule search_web_returns)
  show "\<exists>a. extract_info_with_llm w idx q s = Inr a" by (rule extract_info_returns)
  show "\<exists>r. row_body w idx e q = Inr r" using row_body_returns [of w idx q e] by blast
next
  fix r
  assume run: "process_data w rows template = Inr rs" and r: "r \<in> set rs"
  from run have loop: "process_loop w template 0 [] rows = Inr rs"
    by (simp add: process_data_def)
  from r obtain k where k: "k < length rs" and rk: "r = rs ! k"
    by (auto simp: in_set_conv_nth)
  with process_loop_rows [OF loop] obtain q' where
    "r = process_row w k (rows ! k) q'"
    by auto
  with process_row_shape [of w k q' "rows ! k"]
  show "map fst r = [''entity'', ''search_query'', ''analysis'', ''timestamp'']"
    by auto
qed

theorem row_handler_unreachable_witness:
  "\<exists>rs. process_data scripted_env [''Acme'', ''Globex''] ''News about {entity}'' = Inr rs \<and>
        length rs = 2 \<and>
        map fst (rs ! 0) = [''entity'', ''search_query'', ''analysis'', ''timestamp''] \<and>
        map fst (rs ! 1) = [''entity'', ''search_query'', ''analysis'', ''timestamp'']"
proof -
  let ?rows = "[''Acme'', ''Globex'']"
  let ?t = "''News about {entity}''"
  have "\<exists>rs. process_data scripted_env ?rows ?t = Inr rs \<and> length rs = 2"
    by (simp add: run_defs)
  then obtain rs where rs: "process_data scripted_env ?rows ?t = Inr rs" and len: "length rs = 2"
    by blast
  from row_handler_unreachable [of scripted_env 0 "''q''" 3 "''s''" "''e''" ?rows ?t rs] rs
  have keys: "\<forall>r\<in>set rs. map fst r = [''entity'', ''search_query'', ''analysis'', ''timestamp'']"
    by blast
  have "rs ! 0 \<in> set rs" and "rs ! 1 \<in> set rs"
    using len by simp_all
  with keys rs len show ?thesis by blast
qed

section \<open>Failures of a row\<close>

lemma search_web_transport_failure:
  "http_get w idx (search_url q) headers = Inl e \<Longrightarrow>
   search_web w idx q n = Inr (''Search error: '' @ str_exn e)"
  by (simp add: search_web_def try_except_def and_then_def)

lemma search_web_parse_failure:
  "http_get w idx (search_url q) headers = Inr text \<Longrightarrow> soup_select w text = Inl e \<Longrightarrow>
   search_web w idx q n = Inr (''Search error: '' @ str_exn e)"
  by (simp add: search_web_def extract_results_def try_except_def and_then_def)

lemma extract_info_call_failure:
  "chat_create w idx (completion_request q s) = Inl e \<Longrightarrow>
   extract_info_with_llm w idx q s = Inr (llm_failure e)"
  by (simp add: extract_info_with_llm_def try_except_def and_then_def)

lemma extract_info_parse_failure:
  "chat_create w idx (completion_request q s) = Inr choices \<Longrightarrow>
   first_content choices = Inr text \<Longrightarrow> json_loads w text = Inl e \<Longrightarrow>
   extract_info_with_llm w idx q s = Inr (llm_failure e)"
  by (simp add: extract_info_with_llm_def try_except_def and_then_def)

lemma process_row_env_cong:
  assumes "http_get w' j = http_get w j" and "soup_select w' = soup_select w"
    and "chat_create w' j = chat_create w j" and "json_loads w' = json_loads w"
    and "strftime w' j = strftime w j"
  shows "process_row w' j e q = process_row w j e q"
  using assms
  by (simp add: process_row_def row_body_def search_web_def extract_results_def
      extract_info_with_llm_def split: sum.split)

lemma render_env_cong: "format_ext w' = format_ext w \<Longrightarrow> render w' t e = render w t e"
  by (simp add: render_def split: option.split)

text \<open>
  C2, as amended: an exception raised by the search request, by the extraction of the
  results or by the completion step while a row is handled is turned into a value inside
  \<open>search_web\<close> (the text \<open>Search error: ...\<close>) or inside \<open>extract_info_with_llm\<close> (the
  analysis with \<open>error\<close> set); the row's record is appended with that analysis and a
  timestamp and the loop goes on, so that \<open>process_data\<close> returns one record per row whenever
  the template renders for every row. An exception raised by the rendering of a query is
  raised outside the \<^verbatim>\<open>try\<close> and leaves \<open>process_data\<close>.
\<close>

theorem row_failures_become_values:
  "((\<forall>e\<in>set rows. \<exists>q. render w template e = Inr q) \<longrightarrow>
      (\<exists>rs. process_data w rows template = Inr rs \<and> length rs = length rows \<and>
         (\<forall>i<length rows. \<exists>q out a.
            render w template (rows ! i) = Inr q \<and>
            search_web w i q 3 = Inr out \<and>
            extract_info_with_llm w i q out = Inr a \<and>
            rs ! i = [(''entity'', PStr (rows ! i)), (''search_query'', PStr q),
                      (''analysis'', a), (''timestamp'', PStr (strftime w i))]))) \<and>
   (http_get w idx (search_url query) headers = Inl e \<longrightarrow>
      search_web w idx query n = Inr (''Search error: '' @ str_exn e)) \<and>
   (http_get w idx (search_url query) headers = Inr text \<and> soup_select w text = Inl e \<longrightarrow>
      search_web w idx query n = Inr (''Search error: '' @ str_exn e)) \<and>
   (chat_create w idx (completion_request query s) = Inl e \<longrightarrow>
      extract_info_with_llm w idx query s = Inr (llm_failure e)) \<and>
   (k < length rows \<and> render w template (rows ! k) = Inl err \<and>
    (\<forall>j<k. \<exists>q. render w template (rows ! j) = Inr q) \<longrightarrow>
      process_data w rows template = Inl err)"
proof (intro conjI impI)
  assume renders: "\<forall>e\<in>set rows. \<exists>q. render w template e = Inr q"
  then obtain rs where loop: "process_loop w template 0 [] rows = Inr rs"
    using process_loop_total [of rows w template 0] by blast
  have "\<exists>q out a. render w template (rows ! i) = Inr q \<and>
            search_web w i q 3 = Inr out \<and>
            extract_info_with_llm w i q out = Inr a \<and>
            rs ! i = [(''entity'', PStr (rows ! i)), (''search_query'', PStr q),
                      (''analysis'', a), (''timestamp'', PStr (strftime w i))]"
    if "i < length rows" for i
  proof -
    from process_loop_rows [OF loop] that obtain q where
      q: "render w template (rows ! i) = Inr q" and
      r: "rs ! i = process_row w i (rows ! i) q"
      by auto
    from process_row_shape [of w i q "rows ! i"] q r show ?thesis
      by auto
  qed
  with process_loop_rows [OF loop] loop
  show "\<exists>rs. process_data w rows template = Inr rs \<and> length rs = length rows \<and>
         (\<forall>i<length rows. \<exists>q out a.
            render w template (rows ! i) = Inr q \<and>
            search_web w i q 3 = Inr out \<and>
            extract_info_with_llm w i q out = Inr a \<and>
            rs ! i = [(''entity'', PStr (rows ! i)), (''search_query'', PStr q),
                      (''analysis'', a), (''timestamp'', PStr (strftime w i))])"
    by (auto simp: process_data_def)
next
  assume "http_get w idx (search_url query) headers = Inl e"
  then show "search_web w idx query n = Inr (''Search error: '' @ str_exn e)"
    by (rule search_web_transport_failure)
next
  assume "http_get w idx (search_url query) headers = Inr text \<and> soup_select w text = Inl e"
  then show "search_web w idx query n = Inr (''Search error: '' @ str_exn e)"
    using search_web_parse_failure by blast
next
  assume "chat_create w idx (completion_request query s) = Inl e"
  then show "extract_info_with_llm w idx query s = Inr (llm_failure e)"
    by (rule extract_info_call_failure)
next
  assume a: "k < length rows \<and> render w template (rows ! k) = Inl err \<and>
    (\<forall>j<k. \<exists>q. render w template (rows ! j) = Inr q)"
  then show "process_data w rows template = Inl err"
    using process_loop_abort [of k rows w template err 0] by (simp add: process_data_def)
qed

theorem row_failures_become_values_witness:
  "http_get scripted_env 1 (search_url ''News about Globex'') headers = Inl (Exn ''Read timed out.'') \<and>
   search_web scripted_env 1 ''News about Globex'' 3 = Inr ''Search error: Read timed out.'' \<and>
   (\<exists>rs. process_data scripted_env [''Acme'', ''Globex''] ''News about {entity}'' = Inr rs \<and>
         length rs = 2 \<and>
         map_of (rs ! 1) ''timestamp'' = Some (PStr ''2024-05-01 10:00:02'')) \<and>
   render scripted_env ''News about {company}'' ''Acme'' = Inl (KeyError ''company'') \<and>
   process_data scripted_env [''Acme'', ''Globex''] ''News about {company}'' = Inl (KeyError ''company'')"
proof -
  let ?rows = "[''Acme'', ''Globex'']"
  have fails: "http_get scripted_env 1 (search_url ''News about Globex'') headers
      = Inl (Exn ''Read timed out.'')"
    by (simp add: scripted_env_def)
  with row_failures_become_values
    [of ?rows scripted_env "''News about {entity}''" 1 "''News about Globex''"
      "Exn ''Read timed out.''" 3]
  have search: "search_web scripted_env 1 ''News about Globex'' 3
      = Inr ''Search error: Read timed out.''"
    by simp
  have renders: "\<forall>e\<in>set ?rows. \<exists>q. render scripted_env ''News about {entity}'' e = Inr q"
    by (simp add: render_def emit_def lookup_field_def plain_char_def digit_char_def)
  from row_failures_become_values
    [where rows = ?rows and w = scripted_env and template = "''News about {entity}''",
      THEN conjunct1, THEN mp, OF renders]
  obtain rs where rs: "process_data scripted_env ?rows ''News about {entity}'' = Inr rs"
    and len: "length rs = length ?rows"
    and nth: "\<forall>i<length ?rows. \<exists>q out a.
            render scripted_env ''News about {entity}'' (?rows ! i) = Inr q \<and>
            search_web scripted_env i q 3 = Inr out \<and>
            extract_info_with_llm scripted_env i q out = Inr a \<and>
            rs ! i = [(''entity'', PStr (?rows ! i)), (''search_query'', PStr q),
                      (''analysis'', a), (''timestamp'', PStr (strftime scripted_env i))]"
    by blast
  from nth [THEN spec, of 1]
  have "\<exists>q a. rs ! 1 = [(''entity'', PStr (?rows ! 1)), (''search_query'', PStr q),
                      (''analysis'', a), (''timestamp'', PStr (strftime scripted_env 1))]"
    by auto
  then have stamp: "map_of (rs ! 1) ''timestamp'' = Some (PStr ''2024-05-01 10:00:02'')"
    by (auto simp: scripted_env_def)
  have bad: "render scripted_env ''News about {company}'' ''Acme'' = Inl (KeyError ''company'')"
    by (simp add: render_def emit_def lookup_field_def plain_char_def digit_char_def)
  with row_failures_become_values
    [of ?rows scripted_env "''News about {company}''" _ _ _ _ _ _ 0 "KeyError ''company''"]
  have abort: "process_data scripted_env ?rows ''News about {company}'' = Inl (KeyError ''company'')"
    by simp
  from fails search rs len stamp bad abort show ?thesis
    by auto
qed

theorem row_failures_become_values_counterexample:
  "render scripted_env ''News about {company}'' ''Acme'' = Inl (KeyError ''company'') \<and>
   process_data scripted_env [''Acme'', ''Globex''] ''News about {company}''
     = Inl (KeyError ''company'')"
  by (simp add: run_defs)

text \<open>
  C3, as amended: when the search request of row \<open>i\<close> raises, \<open>search_web\<close> returns the text
  \<open>Search error: ...\<close>, the completion step runs on that text, and the row's record has the
  keys entity, search_query, analysis and timestamp, with no \<open>error\<close> key of its own; the
  records of the other rows are those of any run whose environment differs only in what
  it answers while row \<open>i\<close> is handled.
\<close>

theorem search_failure_row:
  "process_data w rows template = Inr rs \<and> i < length rows \<and>
   render w template (rows ! i) = Inr q \<and>
   http_get w i (search_url q) headers = Inl e \<longrightarrow>
     (\<exists>a. extract_info_with_llm w i q (''Search error: '' @ str_exn e) = Inr a \<and>
          rs ! i = [(''entity'', PStr (rows ! i)), (''search_query'', PStr q),
                    (''analysis'', a), (''timestamp'', PStr (strftime w i))]) \<and>
     map_of (rs ! i) ''error'' = None \<and>
     (format_ext w' = format_ext w \<and> soup_select w' = soup_select w \<and>
      json_loads w' = json_loads w \<and>
      (\<forall>j. j \<noteq> i \<longrightarrow> http_get w' j = http_get w j \<and> chat_create w' j = chat_create w j \<and>
           strftime w' j = strftime w j) \<and>
      process_data w' rows template = Inr rs' \<longrightarrow>
        (\<forall>j<length rows. j \<noteq> i \<longrightarrow> rs' ! j = rs ! j))"
proof (intro impI)
  assume asm: "process_data w rows template = Inr rs \<and> i < length rows \<and>
   render w template (rows ! i) = Inr q \<and>
   http_get w i (search_url q) headers = Inl e"
  then have loop: "process_loop w template 0 [] rows = Inr rs"
    and i: "i < length rows"
    and q: "render w template (rows ! i) = Inr q"
    and fails: "http_get w i (search_url q) headers = Inl e"
    by (simp_all add: process_data_def)
  from process_loop_rows [OF loop] i q
  have row: "rs ! i = process_row w i (rows ! i) q"
    by auto
  have out: "search_web w i q 3 = Inr (''Search error: '' @ str_exn e)"
    using fails by (rule search_web_transport_failure)
  from process_row_shape [of w i q "rows ! i"] out row
  have shape: "\<exists>a. extract_info_with_llm w i q (''Search error: '' @ str_exn e) = Inr a \<and>
          rs ! i = [(''entity'', PStr (rows ! i)), (''search_query'', PStr q),
                    (''analysis'', a), (''timestamp'', PStr (strftime w i))]"
    by auto
  then have no_error: "map_of (rs ! i) ''error'' = None"
    by auto
  have others: "\<forall>j<length rows. j \<noteq> i \<longrightarrow> rs' ! j = rs ! j"
    if agree: "format_ext w' = format_ext w \<and> soup_select w' = soup_select w \<and>
      json_loads w' = json_loads w \<and>
      (\<forall>j. j \<noteq> i \<longrightarrow> http_get w' j = http_get w j \<and> chat_create w' j = chat_create w j \<and>
           strftime w' j = strftime w j) \<and>
      process_data w' rows template = Inr rs'"
  proof (intro allI impI)
    fix j assume j: "j < length rows" and ji: "j \<noteq> i"
    from agree have loop': "process_loop w' template 0 [] rows = Inr rs'"
      by (simp add: process_data_def)
    from process_loop_rows [OF loop] j obtain qj where
      qj: "render w template (rows ! j) = Inr qj" and
      rj: "rs ! j = process_row w j (rows ! j) qj"
      by auto
    from process_loop_rows [OF loop'] j obtain qj' where
      qj': "render w' template (rows ! j) = Inr qj'" and
      rj': "rs' ! j = process_row w' j (rows ! j) qj'"
      by auto
    from agree have "render w' template (rows ! j) = render w template (rows ! j)"
      by (intro render_env_cong) simp
    with qj qj' have same: "qj' = qj" by simp
    from agree ji have "process_row w' j (rows ! j) qj = process_row w j (rows ! j) qj"
      by (intro process_row_env_cong) simp_all
    with rj rj' same show "rs' ! j = rs ! j" by simp
  qed
  from shape no_error others
  show "(\<exists>a. extract_info_with_llm w i q (''Search error: '' @ str_exn e) = Inr a \<and>
          rs ! i = [(''entity'', PStr (rows ! i)), (''search_query'', PStr q),
                    (''analysis'', a), (''timestamp'', PStr (strftime w i))]) \<and>
     map_of (rs ! i) ''error'' = None \<and>
     (format_ext w' = format_ext w \<and> soup_select w' = soup_select w \<and>
      json_loads w' = json_loads w \<and>
      (\<forall>j. j \<noteq> i \<longrightarrow> http_get w' j = http_get w j \<and> chat_create w' j = chat_create w j \<and>
           strftime w' j = strftime w j) \<and>
      process_data w' rows template = Inr rs' \<longrightarrow>
        (\<forall>j<length rows. j \<noteq> i \<longrightarrow> rs' ! j = rs ! j))"
    by blast
qed


theorem search_failure_row_witness:
  "http_get offline_env 0 (search_url ''News about Acme'') headers = Inl (Exn ''Read timed out.'') \<and>
   (\<exists>rs rs'. process_data offline_env [''Acme'', ''Globex''] ''News about {entity}'' = Inr rs \<and>
       process_data scripted_env [''Acme'', ''Globex''] ''News about {entity}'' = Inr rs' \<and>
       map fst (rs ! 0) = [''entity'', ''search_query'', ''analysis'', ''timestamp''] \<and>
       map_of (rs ! 0) ''error'' = None \<and>
       rs' ! 1 = rs ! 1)"
proof -
  let ?rows = "[''Acme'', ''Globex'']"
  let ?t = "''News about {entity}''"
  have fails: "http_get offline_env 0 (search_url ''News about Acme'') headers
      = Inl (Exn ''Read timed out.'')"
    by (simp add: offline_env_def)
  have q: "render offline_env ?t (?rows ! 0) = Inr ''News about Acme''"
    by (simp add: render_def emit_def lookup_field_def plain_char_def digit_char_def)
  have "\<exists>rs. process_data offline_env ?rows ?t = Inr rs"
    by (simp add: run_defs offline_env_def)
  then obtain rs where rs: "process_data offline_env ?rows ?t = Inr rs"
    by blast
  have "\<exists>rs'. process_data scripted_env ?rows ?t = Inr rs'"
    by (simp add: run_defs)
  then obtain rs' where rs': "process_data scripted_env ?rows ?t = Inr rs'"
    by blast
  have agree: "format_ext scripted_env = format_ext offline_env \<and>
      soup_select scripted_env = soup_select offline_env \<and>
      json_loads scripted_env = json_loads offline_env \<and>
      (\<forall>j. j \<noteq> 0 \<longrightarrow> http_get scripted_env j = http_get offline_env j \<and>
           chat_create scripted_env j = chat_create offline_env j \<and>
           strftime scripted_env j = strftime offline_env j)"
    by (simp add: offline_env_def scripted_env_def)
  from search_failure_row
    [of offline_env ?rows ?t rs 0 "''News about Acme''" "Exn ''Read timed out.''"
      scripted_env rs']
    rs rs' fails q agree
  have shape: "\<exists>a. rs ! 0 = [(''entity'', PStr (?rows ! 0)),
                    (''search_query'', PStr ''News about Acme''),
                    (''analysis'', a), (''timestamp'', PStr (strftime offline_env 0))]"
    and no_error: "map_of (rs ! 0) ''error'' = None"
    and others: "\<forall>j<length ?rows. j \<noteq> 0 \<longrightarrow> rs' ! j = rs ! j"
    by auto
  from shape have keys: "map fst (rs ! 0) = [''entity'', ''search_query'', ''analysis'', ''timestamp'']"
    by auto
  from others [THEN spec, of 1] have "rs' ! 1 = rs ! 1"
    by simp
  with rs rs' keys no_error
  have "process_data offline_env ?rows ?t = Inr rs \<and>
       process_data scripted_env ?rows ?t = Inr rs' \<and>
       map fst (rs ! 0) = [''entity'', ''search_query'', ''analysis'', ''timestamp''] \<and>
       map_of (rs ! 0) ''error'' = None \<and>
       rs' ! 1 = rs ! 1"
    by (intro conjI)
  then have "\<exists>rs rs'. process_data offline_env ?rows ?t = Inr rs \<and>
       process_data scripted_env ?rows ?t = Inr rs' \<and>
       map fst (rs ! 0) = [''entity'', ''search_query'', ''analysis'', ''timestamp''] \<and>
       map_of (rs ! 0) ''error'' = None \<and>
       rs' ! 1 = rs ! 1"
    by (intro exI)
  with fails show ?thesis
    by (intro conjI)
qed

theorem search_failure_row_counterexample:
  "http_get offline_env 0 (search_url ''News about Acme'') headers = Inl (Exn ''Read timed out.'') \<and>
   search_web offline_env 0 ''News about Acme'' 3 = Inr ''Search error: Read timed out.'' \<and>
   process_data offline_env [''Acme''] ''News about {entity}'' =
     Inr [[(''entity'', PStr ''Acme''),
           (''search_query'', PStr ''News about Acme''),
           (''analysis'', PDict [(''extracted_info'', PStr ''Acme grows'')]),
           (''timestamp'', PStr ''2024-05-01 10:00:00'')]]"
  by (simp add: run_defs offline_env_def)

section \<open>Results of the completion step\<close>

text \<open>
  C4: when the completion call raises, when it returns no usable content, or when the
  returned text is rejected by \<^verbatim>\<open>json.loads\<close>, \<open>extract_info_with_llm\<close> returns the sentinel
  record: \<open>error\<close> is the message prefixed with \<open>LLM processing error: \<close>, \<open>extracted_info\<close> is
  null, \<open>key_points\<close> is the empty list, \<open>source_quality\<close> is \<open>error\<close> and \<open>confidence\<close> is
  \<open>none\<close>. On every input it returns a value and does not raise.
\<close>

theorem llm_failure_gives_sentinel:
  "(\<exists>v. extract_info_with_llm w idx query results_text = Inr v) \<and>
   (chat_create w idx (completion_request query results_text) = Inl e \<or>
    (\<exists>choices. chat_create w idx (completion_request query results_text) = Inr choices \<and>
       (first_content choices = Inl e \<or>
        (\<exists>text. first_content choices = Inr text \<and> json_loads w text = Inl e))) \<longrightarrow>
    (\<exists>kvs. extract_info_with_llm w idx query results_text = Inr (PDict kvs) \<and>
       map_of kvs ''error'' = Some (PStr (''LLM processing error: '' @ str_exn e)) \<and>
       map_of kvs ''extracted_info'' = Some PNone \<and>
       map_of kvs ''key_points'' = Some (PList []) \<and>
       map_of kvs ''source_quality'' = Some (PStr ''error'') \<and>
       map_of kvs ''confidence'' = Some (PStr ''none'')))"
proof (intro conjI impI)
  show "\<exists>v. extract_info_with_llm w idx query results_text = Inr v"
    by (rule extract_info_returns)
next
  assume "chat_create w idx (completion_request query results_text) = Inl e \<or>
    (\<exists>choices. chat_create w idx (completion_request query results_text) = Inr choices \<and>
       (first_content choices = Inl e \<or>
        (\<exists>text. first_content choices = Inr text \<and> json_loads w text = Inl e)))"
  then have "extract_info_with_llm w idx query results_text = Inr (llm_failure e)"
    by (auto simp: extract_info_with_llm_def try_except_def and_then_def)
  then show "\<exists>kvs. extract_info_with_llm w idx query results_text = Inr (PDict kvs) \<and>
       map_of kvs ''error'' = Some (PStr (''LLM processing error: '' @ str_exn e)) \<and>
       map_of kvs ''extracted_info'' = Some PNone \<and>
       map_of kvs ''key_points'' = Some (PList []) \<and>
       map_of kvs ''source_quality'' = Some (PStr ''error'') \<and>
       map_of kvs ''confidence'' = Some (PStr ''none'')"
    by (simp add: llm_failure_def)
qed

theorem llm_failure_gives_sentinel_witness:
  "chat_create scripted_env 1 (completion_request ''News about Globex'' ''Search error: Read timed out.'')
     = Inr [Some ''Sorry, no results.''] \<and>
   json_loads scripted_env ''Sorry, no results.''
     = Inl (Exn ''Expecting value: line 1 column 1 (char 0)'') \<and>
   (\<exists>kvs. extract_info_with_llm scripted_env 1 ''News about Globex'' ''Search error: Read timed out.''
        = Inr (PDict kvs) \<and>
      map_of kvs ''error''
        = Some (PStr ''LLM processing error: Expecting value: line 1 column 1 (char 0)'') \<and>
      map_of kvs ''source_quality'' = Some (PStr ''error'') \<and>
      map_of kvs ''confidence'' = Some (PStr ''none'') \<and>
      map_of kvs ''key_points'' = Some (PList []))"
proof -
  let ?q = "''News about Globex''"
  let ?s = "''Search error: Read timed out.''"
  let ?e = "Exn ''Expecting value: line 1 column 1 (char 0)''"
  have call: "chat_create scripted_env 1 (completion_request ?q ?s) = Inr [Some ''Sorry, no results.'']"
    by (simp add: scripted_env_def)
  have content: "first_content [Some ''Sorry, no results.''] = Inr ''Sorry, no results.''"
    by (simp add: first_content_def)
  have parse: "json_loads scripted_env ''Sorry, no results.'' = Inl ?e"
    by (simp add: scripted_env_def acme_answer_def)
  from call content parse
  have failed: "chat_create scripted_env 1 (completion_request ?q ?s) = Inl ?e \<or>
    (\<exists>choices. chat_create scripted_env 1 (completion_request ?q ?s) = Inr choices \<and>
       (first_content choices = Inl ?e \<or>
        (\<exists>text. first_content choices = Inr text \<and> json_loads scripted_env text = Inl ?e)))"
    by simp
  from llm_failure_gives_sentinel [of scripted_env 1 ?q ?s ?e, THEN conjunct2, THEN mp, OF failed]
  obtain kvs where
    "extract_info_with_llm scripted_env 1 ?q ?s = Inr (PDict kvs)"
    "map_of kvs ''error'' = Some (PStr (''LLM processing error: '' @ str_exn ?e))"
    "map_of kvs ''source_quality'' = Some (PStr ''error'')"
    "map_of kvs ''confidence'' = Some (PStr ''none'')"
    "map_of kvs ''key_points'' = Some (PList [])"
    by blast
  then have "\<exists>kvs. extract_info_with_llm scripted_env 1 ?q ?s = Inr (PDict kvs) \<and>
      map_of kvs ''error''
        = Some (PStr ''LLM processing error: Expecting value: line 1 column 1 (char 0)'') \<and>
      map_of kvs ''source_quality'' = Some (PStr ''error'') \<and>
      map_of kvs ''confidence'' = Some (PStr ''none'') \<and>
      map_of kvs ''key_points'' = Some (PList [])"
    by simp
  with call parse show ?thesis
    by (intro conjI)
qed

text \<open>
  C6, as amended: the value returned by \<open>extract_info_with_llm\<close> is either the value that
  \<^verbatim>\<open>json.loads\<close> parsed from the content of the first choice, returned as it is whatever
  its shape, or the dictionary built by the handler, which is the error sentinel.
\<close>

theorem extraction_result_shapes:
  "(\<exists>v. extract_info_with_llm w idx query results_text = Inr v \<and>
      ((\<exists>choices text.
          chat_create w idx (completion_request query results_text) = Inr choices \<and>
          first_content choices = Inr text \<and> json_loads w text = Inr v) \<or>
       (\<exists>e. v = llm_failure e))) \<and>
   spec_error_sentinel (llm_failure e')"
proof
  show "\<exists>v. extract_info_with_llm w idx query results_text = Inr v \<and>
      ((\<exists>choices text.
          chat_create w idx (completion_request query results_text) = Inr choices \<and>
          first_content choices = Inr text \<and> json_loads w text = Inr v) \<or>
       (\<exists>e. v = llm_failure e))"
    by (auto simp: extract_info_with_llm_def try_except_def and_then_def split: sum.split)
  show "spec_error_sentinel (llm_failure e')"
    by (simp add: llm_failure_def)
qed

theorem extraction_result_shapes_counterexample:
  "extract_info_with_llm scripted_env 0 ''News about Acme''
       ''Title: Acme Corp\<newline>Snippet: Acme makes anvils\<newline>''
     = Inr (PDict [(''extracted_info'', PStr ''Acme grows'')]) \<and>
   \<not> spec_valid_fields (PDict [(''extracted_info'', PStr ''Acme grows'')]) \<and>
   \<not> spec_error_sentinel (PDict [(''extracted_info'', PStr ''Acme grows'')])"
  by (simp add: run_defs)

section \<open>Rendered queries\<close>

lemma emit_Nil: "emit [] rest = rest"
  by (simp add: emit_def split: option.split sum.split)

lemma emit_Cons: "emit [c] (emit s rest) = emit (c # s) rest"
  by (simp add: emit_def split: option.split sum.split)

lemma format_text_literal:
  "CHR ''{'' \<notin> set pre \<Longrightarrow> CHR ''}'' \<notin> set pre \<Longrightarrow>
   format_text entity (pre @ rest) = emit pre (format_text entity rest)"
proof (induction pre)
  case Nil
  show ?case by (simp add: emit_Nil)
next
  case (Cons c pre)
  then have "format_text entity (pre @ rest) = emit pre (format_text entity rest)"
    by simp
  moreover have "c \<noteq> CHR ''{''" and "c \<noteq> CHR ''}''"
    using Cons.prems by auto
  ultimately show ?case
    by (simp add: emit_Cons)
qed

lemma format_field_name:
  "\<forall>c\<in>set name. plain_char c \<and> c \<noteq> CHR ''}'' \<Longrightarrow>
   format_field entity acc (name @ CHR ''}'' # post) =
     lookup_field entity (acc @ name) (format_text entity post)"
proof (induction name arbitrary: acc)
  case Nil
  show ?case by simp
next
  case (Cons c name)
  then have "format_field entity (acc @ [c]) (name @ CHR ''}'' # post) =
     lookup_field entity ((acc @ [c]) @ name) (format_text entity post)"
    by simp
  then show ?case
    using Cons.prems by simp
qed

text \<open>
  C5, as amended: rendering \<open>News about {entity}\<close> with the entity \<open>Acme\<close> yields exactly
  \<open>News about Acme\<close>. A template in which the placeholder is absent does not fail for that
  reason: a template without braces is returned unchanged, and a template whose first
  replacement field has another plain name fails with KeyError of that name.
\<close>

theorem render_placeholder:
  "render w ''News about {entity}'' ''Acme'' = Inr ''News about Acme'' \<and>
   (CHR ''{'' \<notin> set template \<and> CHR ''}'' \<notin> set template \<longrightarrow>
      render w template entity = Inr template) \<and>
   (CHR ''{'' \<notin> set pre \<and> CHR ''}'' \<notin> set pre \<and> name \<noteq> [] \<and>
    (\<forall>c\<in>set name. plain_char c \<and> c \<noteq> CHR ''}'') \<and>
    \<not> list_all digit_char name \<and> name \<noteq> ''entity'' \<longrightarrow>
      render w (pre @ ''{'' @ name @ ''}'' @ post) entity = Inl (KeyError name))"
proof (intro conjI impI)
  show "render w ''News about {entity}'' ''Acme'' = Inr ''News about Acme''"
    by (simp add: render_def emit_def lookup_field_def plain_char_def digit_char_def)
next
  assume "CHR ''{'' \<notin> set template \<and> CHR ''}'' \<notin> set template"
  then have "format_text entity (template @ []) = emit template (format_text entity [])"
    by (intro format_text_literal) simp_all
  then show "render w template entity = Inr template"
    by (simp add: render_def emit_def)
next
  assume a: "CHR ''{'' \<notin> set pre \<and> CHR ''}'' \<notin> set pre \<and> name \<noteq> [] \<and>
    (\<forall>c\<in>set name. plain_char c \<and> c \<noteq> CHR ''}'') \<and>
    \<not> list_all digit_char name \<and> name \<noteq> ''entity''"
  then obtain d ds where name: "name = d # ds"
    by (cases name) auto
  with a have d: "d \<noteq> CHR ''{''"
    by (auto simp: plain_char_def)
  from a have field: "format_field entity [] (name @ CHR ''}'' # post) =
     lookup_field entity ([] @ name) (format_text entity post)"
    by (intro format_field_name) simp
  have "format_text entity (''{'' @ name @ ''}'' @ post) =
        format_field entity [] (name @ CHR ''}'' # post)"
    using name d by simp
  also have "\<dots> = Some (Inl (KeyError name))"
    using field a by (simp add: lookup_field_def)
  finally have "format_text entity (pre @ (''{'' @ name @ ''}'' @ post)) =
      emit pre (Some (Inl (KeyError name)))"
    using a by (simp add: format_text_literal del: format_text.simps append.simps)
  then show "render w (pre @ ''{'' @ name @ ''}'' @ post) entity = Inl (KeyError name)"
    by (simp add: render_def emit_def)
qed

theorem render_placeholder_witness:
  "render scripted_env ''News about it'' ''Acme'' = Inr ''News about it'' \<and>
   render scripted_env ''News about {company}'' ''Acme'' = Inl (KeyError ''company'')"
proof -
  have "render scripted_env ''News about it'' ''Acme'' = Inr ''News about it''"
    using render_placeholder [of scripted_env "''News about it''" "''Acme''"]
    by simp
  moreover have "render scripted_env (''News about '' @ ''{'' @ ''company'' @ ''}'' @ '''') ''Acme''
      = Inl (KeyError ''company'')"
    using render_placeholder
      [of scripted_env _ "''Acme''" "''News about ''" "''company''" "''''"]
    by (simp add: plain_char_def digit_char_def)
  ultimately show ?thesis by simp
qed

theorem render_placeholder_counterexample:
  "render scripted_env ''News about it'' ''Acme'' = Inr ''News about it''"
  by (simp add: render_def emit_def)

section \<open>The search request and the extracted hits\<close>





text \<open>
  C8, as amended: for every query string, the search step issues exactly one request, a
  GET to the fixed endpoint followed by the query as it is, without escaping, with the
  desktop-browser User-Agent header, whether or not the request succeeds; what it returns
  is the result of \<open>search_web\<close>, which depends on the network only through the answer to
  that request.
\<close>

theorem search_request:
  "search_web_io w idx query n sent =
     (search_web w idx query n,
      sent @
        [\<lparr> req_method = ''GET'',
           req_url = ''https://html.duckduckgo.com/html/?q='' @ query,
           req_headers =
             [(''User-Agent'',
               ''Mozilla/5.0 (Windows NT 10.0; Win64; x64) AppleWebKit/537.36 (KHTML, like Gecko) Chrome/91.0.4472.124 Safari/537.36'')] \<rparr>]) \<and>
   (http_get w' idx (''https://html.duckduckgo.com/html/?q='' @ query) headers
      = http_get w idx (''https://html.duckduckgo.com/html/?q='' @ query) headers \<and>
    soup_select w' = soup_select w \<longrightarrow>
      search_web w' idx query n = search_web w idx query n)"
proof
  show "search_web_io w idx query n sent =
     (search_web w idx query n,
      sent @
        [\<lparr> req_method = ''GET'',
           req_url = ''https://html.duckduckgo.com/html/?q='' @ query,
           req_headers =
             [(''User-Agent'',
               ''Mozilla/5.0 (Windows NT 10.0; Win64; x64) AppleWebKit/537.36 (KHTML, like Gecko) Chrome/91.0.4472.124 Safari/537.36'')] \<rparr>])"
    by (simp add: search_web_io_def requests_get_def search_web_def search_url_def headers_def)
  show "http_get w' idx (''https://html.duckduckgo.com/html/?q='' @ query) headers
      = http_get w idx (''https://html.duckduckgo.com/html/?q='' @ query) headers \<and>
    soup_select w' = soup_select w \<longrightarrow>
      search_web w' idx query n = search_web w idx query n"
    by (simp add: search_url_def search_web_def extract_results_def)
qed

theorem search_request_witness:
  "search_web_io offline_env 1 ''AT&T'' 3 [] =
     (Inr ''Search error: Read timed out.'',
      [\<lparr> req_method = ''GET'',
         req_url = ''https://html.duckduckgo.com/html/?q=AT&T'',
         req_headers =
           [(''User-Agent'',
             ''Mozilla/5.0 (Windows NT 10.0; Win64; x64) AppleWebKit/537.36 (KHTML, like Gecko) Chrome/91.0.4472.124 Safari/537.36'')] \<rparr>]) \<and>
   http_get offline_env 1 (''https://html.duckduckgo.com/html/?q='' @ ''AT&T'') headers
     = http_get scripted_env 1 (''https://html.duckduckgo.com/html/?q='' @ ''AT&T'') headers \<and>
   soup_select offline_env = soup_select scripted_env \<and>
   search_web offline_env 1 ''AT&T'' 3 = search_web scripted_env 1 ''AT&T'' 3"
proof -
  have result: "search_web offline_env 1 ''AT&T'' 3 = Inr ''Search error: Read timed out.''"
    by (simp add: run_defs offline_env_def)
  from search_request [of offline_env 1 "''AT&T''" 3 "[]", THEN conjunct1] result
  have issued: "search_web_io offline_env 1 ''AT&T'' 3 [] =
     (Inr ''Search error: Read timed out.'',
      [\<lparr> req_method = ''GET'',
         req_url = ''https://html.duckduckgo.com/html/?q=AT&T'',
         req_headers =
           [(''User-Agent'',
             ''Mozilla/5.0 (Windows NT 10.0; Win64; x64) AppleWebKit/537.36 (KHTML, like Gecko) Chrome/91.0.4472.124 Safari/537.36'')] \<rparr>])"
    by simp
  have same: "http_get offline_env 1 (''https://html.duckduckgo.com/html/?q='' @ ''AT&T'') headers
     = http_get scripted_env 1 (''https://html.duckduckgo.com/html/?q='' @ ''AT&T'') headers"
    by (simp add: offline_env_def scripted_env_def)
  have parse: "soup_select offline_env = soup_select scripted_env"
    by (simp add: offline_env_def)
  from search_request
    [where w = scripted_env and w' = offline_env and idx = 1 and query = "''AT&T''" and n = 3,
      THEN conjunct2]
    same parse
  have "search_web offline_env 1 ''AT&T'' 3 = search_web scripted_env 1 ''AT&T'' 3"
    by blast
  with issued same parse show ?thesis
    by (intro conjI)
qed

theorem search_request_counterexample:
  "search_url ''AT&T'' = ''https://html.duckduckgo.com/html/?q=AT&T'' \<and>
   spec_percent_encode ''AT&T'' = ''AT%26T'' \<and>
   search_url ''AT&T'' \<noteq> ''https://html.duckduckgo.com/html/?q='' @ spec_percent_encode ''AT&T'' \<and>
   map req_url (snd (search_web_io scripted_env 0 ''AT&T'' 3 []))
     = [''https://html.duckduckgo.com/html/?q=AT&T''] \<and>
   map req_url (snd (search_web_io scripted_env 0 ''AT&T'' 3 []))
     \<noteq> [''https://html.duckduckgo.com/html/?q=AT%26T'']"
  by (simp add: search_url_def spec_percent_encode_def unreserved_def hex_digit_def
      search_web_io_def requests_get_def)

section \<open>Rows of the summary view\<close>

lemma summary_row_dict:
  "map_of r ''entity'' = Some e \<Longrightarrow>
   summary_row r (PDict kvs) =
     Inr [(''Entity'', e),
          (''Main Findings'', case map_of kvs ''extracted_info'' of None \<Rightarrow> PStr ''N/A'' | Some v \<Rightarrow> v),
          (''Confidence'', case map_of kvs ''confidence'' of None \<Rightarrow> PStr ''N/A'' | Some v \<Rightarrow> v),
          (''Source Quality'', case map_of kvs ''source_quality'' of None \<Rightarrow> PStr ''N/A'' | Some v \<Rightarrow> v)]"
  by (simp add: summary_row_def subscript_def and_then_def)

text \<open>
  C9, as amended: for every result sequence in which each record that has an \<open>analysis\<close>
  key has an \<open>entity\<close> key and a dictionary as its analysis, the summary view has exactly
  one row, in order, per record that has an \<open>analysis\<close> key, with the four columns Entity,
  Main Findings, Confidence and Source Quality, and with \<open>N/A\<close> wherever the corresponding
  key is absent from the analysis; a record without \<open>analysis\<close> contributes no row.
\<close>

theorem summary_view_rows:
  "(\<forall>r\<in>set results. \<forall>a. map_of r ''analysis'' = Some a \<longrightarrow>
       (\<exists>kvs. a = PDict kvs) \<and> (\<exists>e. map_of r ''entity'' = Some e)) \<longrightarrow>
   (\<exists>rows. summary_data results = Inr rows \<and>
      length rows = length (filter (\<lambda>r. map_of r ''analysis'' \<noteq> None) results) \<and>
      list_all2
        (\<lambda>r row. \<exists>e kvs. map_of r ''entity'' = Some e \<and>
           map_of r ''analysis'' = Some (PDict kvs) \<and>
           row = [(''Entity'', e),
                  (''Main Findings'',
                     case map_of kvs ''extracted_info'' of None \<Rightarrow> PStr ''N/A'' | Some v \<Rightarrow> v),
                  (''Confidence'',
                     case map_of kvs ''confidence'' of None \<Rightarrow> PStr ''N/A'' | Some v \<Rightarrow> v),
                  (''Source Quality'',
                     case map_of kvs ''source_quality'' of None \<Rightarrow> PStr ''N/A'' | Some v \<Rightarrow> v)])
        (filter (\<lambda>r. map_of r ''analysis'' \<noteq> None) results) rows)"
proof (induction results)
  case Nil
  show ?case by simp
next
  case (Cons r results)
  show ?case
  proof (intro impI)
    assume ok: "\<forall>r\<in>set (r # results). \<forall>a. map_of r ''analysis'' = Some a \<longrightarrow>
       (\<exists>kvs. a = PDict kvs) \<and> (\<exists>e. map_of r ''entity'' = Some e)"
    then have "\<forall>r\<in>set results. \<forall>a. map_of r ''analysis'' = Some a \<longrightarrow>
       (\<exists>kvs. a = PDict kvs) \<and> (\<exists>e. map_of r ''entity'' = Some e)"
      by simp
    with Cons.IH obtain rows where
      rows: "summary_data results = Inr rows" and
      len: "length rows = length (filter (\<lambda>r. map_of r ''analysis'' \<noteq> None) results)" and
      rel: "list_all2
        (\<lambda>r row. \<exists>e kvs. map_of r ''entity'' = Some e \<and>
           map_of r ''analysis'' = Some (PDict kvs) \<and>
           row = [(''Entity'', e),
                  (''Main Findings'',
                     case map_of kvs ''extracted_info'' of None \<Rightarrow> PStr ''N/A'' | Some v \<Rightarrow> v),
                  (''Confidence'',
                     case map_of kvs ''confidence'' of None \<Rightarrow> PStr ''N/A'' | Some v \<Rightarrow> v),
                  (''Source Quality'',
                     case map_of kvs ''source_quality'' of None \<Rightarrow> PStr ''N/A'' | Some v \<Rightarrow> v)])
        (filter (\<lambda>r. map_of r ''analysis'' \<noteq> None) results) rows"
      by blast
    show "\<exists>rows. summary_data (r # results) = Inr rows \<and>
      length rows = length (filter (\<lambda>r. map_of r ''analysis'' \<noteq> None) (r # results)) \<and>
      list_all2
        (\<lambda>r row. \<exists>e kvs. map_of r ''entity'' = Some e \<and>
           map_of r ''analysis'' = Some (PDict kvs) \<and>
           row = [(''Entity'', e),
                  (''Main Findings'',
                     case map_of kvs ''extracted_info'' of None \<Rightarrow> PStr ''N/A'' | Some v \<Rightarrow> v),
                  (''Confidence'',
                     case map_of kvs ''confidence'' of None \<Rightarrow> PStr ''N/A'' | Some v \<Rightarrow> v),
                  (''Source Quality'',
                     case map_of kvs ''source_quality'' of None \<Rightarrow> PStr ''N/A'' | Some v \<Rightarrow> v)])
        (filter (\<lambda>r. map_of r ''analysis'' \<noteq> None) (r # results)) rows"
    proof (cases "map_of r ''analysis''")
      case None
      with rows len rel show ?thesis by simp
    next
      case (Some a)
      with ok obtain kvs e where a: "a = PDict kvs" and e: "map_of r ''entity'' = Some e"
        by auto
      from summary_row_dict [OF e, of kvs] Some a rows len rel e
      show ?thesis
        by (simp add: and_then_def)
    qed
  qed
qed

theorem summary_view_rows_witness:
  "summary_data
     [[(''entity'', PStr ''Acme''), (''search_query'', PStr ''News about Acme''),
       (''analysis'', PDict [(''extracted_info'', PStr ''Acme grows'')]),
       (''timestamp'', PStr ''2024-05-01 10:00:00'')],
      [(''entity'', PStr ''Globex''), (''error'', PStr ''boom''),
       (''timestamp'', PStr ''2024-05-01 10:00:02'')]]
   = Inr [[(''Entity'', PStr ''Acme''), (''Main Findings'', PStr ''Acme grows''),
           (''Confidence'', PStr ''N/A''), (''Source Quality'', PStr ''N/A'')]]"
proof -
  let ?results =
    "[[(''entity'', PStr ''Acme''), (''search_query'', PStr ''News about Acme''),
       (''analysis'', PDict [(''extracted_info'', PStr ''Acme grows'')]),
       (''timestamp'', PStr ''2024-05-01 10:00:00'')],
      [(''entity'', PStr ''Globex''), (''error'', PStr ''boom''),
       (''timestamp'', PStr ''2024-05-01 10:00:02'')]]"
  have ok: "\<forall>r\<in>set ?results. \<forall>a. map_of r ''analysis'' = Some a \<longrightarrow>
       (\<exists>kvs. a = PDict kvs) \<and> (\<exists>e. map_of r ''entity'' = Some e)"
    by simp
  from summary_view_rows [of ?results, THEN mp, OF ok]
  show ?thesis
    by (auto simp: list_all2_Cons1)
qed

theorem summary_view_rows_counterexample:
  "summary_data
     [[(''entity'', PStr ''Globex''), (''error'', PStr ''boom''),
       (''timestamp'', PStr ''2024-05-01 10:00:02'')]]
   = Inr []"
  by simp

end
